theory Spec2Isabelle
  imports Main
begin

section \<open>Values exchanged with the PrivX service\<close>

text \<open>
  A Go \<open>error\<close> is an interface value. Four kinds occur in the two command files:
  errors handed back by the SDK client (opaque to the commands), errors built with
  \<open>fmt.Errorf\<close>, and the two errors of the flag library: a flag the command does not
  define was given, or a flag marked as required was not given.
\<close>

datatype error =
    SdkError string
  | Errorf string
  | UnknownFlag string
  | RequiredFlagsNotSet "string list"

text \<open>
  \<open>userstore.TrustedClient\<close>: the commands read its \<open>Type\<close> field only
  (\<open>userstore.ClientType\<close> is a string type).
\<close>

record TrustedClient =
  ID :: string
  Type :: string

text \<open>The handle of a configuration download; the commands read \<open>SessionID\<close>.\<close>

record DownloadHandle =
  SessionID :: string

text \<open>CA certificates and users are passed through to the output untouched.\<close>

datatype CA = CA string

datatype User = User string

section \<open>The remote client\<close>

text \<open>
  The SDK objects made by \<open>userstore.New(curl())\<close>, \<open>authorizer.New(curl())\<close> and
  \<open>rolestore.New(curl())\<close> belong to the SDK, not to the two command files, and are a
  parameter of every command: each operation takes the state of the service, answers
  with a result or an error and leaves the service in a new state. The helper
  \<open>stdout\<close> is defined outside the two command files as well; what it returns for a
  value it is asked to print is the parameter \<open>stdout_error\<close>.
\<close>

datatype printed =
    OutClients "TrustedClient list"
  | OutCAs "CA list"
  | OutCA CA
  | OutUsers "User list"
  | OutLine string

record 's sdk =
  TrustedClients :: "'s \<Rightarrow> (error + TrustedClient list) \<times> 's"
  ExtenderCACertificates :: "string \<Rightarrow> 's \<Rightarrow> (error + CA list) \<times> 's"
  WebProxyCACertificates :: "string \<Rightarrow> 's \<Rightarrow> (error + CA list) \<times> 's"
  ExtenderCACertificate :: "string \<Rightarrow> 's \<Rightarrow> (error + CA) \<times> 's"
  WebProxyCACertificate :: "string \<Rightarrow> 's \<Rightarrow> (error + CA) \<times> 's"
  DownloadExtenderCertificateCRL :: "string \<Rightarrow> string \<Rightarrow> 's \<Rightarrow> error option \<times> 's"
  DownloadWebProxyCertificateCRL :: "string \<Rightarrow> string \<Rightarrow> 's \<Rightarrow> error option \<times> 's"
  ExtenderConfigDownloadHandle :: "string \<Rightarrow> 's \<Rightarrow> (error + DownloadHandle) \<times> 's"
  DownloadExtenderConfig :: "string \<Rightarrow> string \<Rightarrow> string \<Rightarrow> 's \<Rightarrow> error option \<times> 's"
  WebProxySessionDownloadHandle :: "string \<Rightarrow> 's \<Rightarrow> (error + DownloadHandle) \<times> 's"
  DownloadWebProxyConfig :: "string \<Rightarrow> string \<Rightarrow> string \<Rightarrow> 's \<Rightarrow> error option \<times> 's"
  CarrierConfigDownloadHandle :: "string \<Rightarrow> 's \<Rightarrow> (error + DownloadHandle) \<times> 's"
  DownloadCarrierConfig :: "string \<Rightarrow> string \<Rightarrow> string \<Rightarrow> 's \<Rightarrow> error option \<times> 's"
  DeleteRole :: "string \<Rightarrow> 's \<Rightarrow> error option \<times> 's"
  GetRoleMembers :: "string \<Rightarrow> 's \<Rightarrow> (error + User list) \<times> 's"
  stdout_error :: "printed \<Rightarrow> error option"

text \<open>The remote operations a command has invoked, with their arguments, in order.\<close>

datatype call =
    C_TrustedClients
  | C_ExtenderCACertificates string
  | C_WebProxyCACertificates string
  | C_ExtenderCACertificate string
  | C_WebProxyCACertificate string
  | C_DownloadExtenderCertificateCRL string string
  | C_DownloadWebProxyCertificateCRL string string
  | C_ExtenderConfigDownloadHandle string
  | C_DownloadExtenderConfig string string string
  | C_WebProxySessionDownloadHandle string
  | C_DownloadWebProxyConfig string string string
  | C_CarrierConfigDownloadHandle string
  | C_DownloadCarrierConfig string string string
  | C_DeleteRole string
  | C_GetRoleMembers string

text \<open>
  What a command acts on: the service (\<open>remote\<close>), the log of the remote operations
  invoked so far (\<open>calls\<close>), and what was handed to the output so far (\<open>out\<close>: a
  value given to \<open>stdout\<close>, or a line printed with \<open>fmt.Println\<close>).
\<close>

record 's world =
  remote :: 's
  calls :: "call list"
  out :: "printed list"

text \<open>
  \<open>invoke\<close> runs one remote operation on the service and logs it. \<open>stdout\<close> records
  the value the helper is given and returns what the helper returns.
\<close>

definition invoke :: "call \<Rightarrow> ('s \<Rightarrow> 'r \<times> 's) \<Rightarrow> 's world \<Rightarrow> 'r \<times> 's world" where
  "invoke c f w =
     (case f (remote w) of (r, s') \<Rightarrow> (r, w\<lparr>remote := s', calls := calls w @ [c]\<rparr>))"

definition stdout :: "'s sdk \<Rightarrow> printed \<Rightarrow> 's world \<Rightarrow> error option \<times> 's world" where
  "stdout api v w = (stdout_error api v, w\<lparr>out := out w @ [v]\<rparr>)"

section \<open>Library functions on strings\<close>

text \<open>
  \<open>strings.ToUpper\<close> on the bytes of a string: the letters \<open>a\<close> to \<open>z\<close> become
  \<open>A\<close> to \<open>Z\<close>, every other byte is kept. This is \<open>strings.ToUpper\<close> on strings
  of ASCII bytes only: Go also maps the letters outside ASCII and replaces invalid UTF-8.
  The commands apply it to the tokens \<open>extender\<close> and \<open>carrier\<close> only.
\<close>

definition upper_byte :: "char \<Rightarrow> char" where
  "upper_byte c =
     (let n = (of_char c :: nat) in if 97 \<le> n \<and> n \<le> 122 then char_of (n - 32) else c)"

definition ToUpper :: "string \<Rightarrow> string" where
  "ToUpper s = map upper_byte s"

text \<open>
  \<open>strings.Split(s, sep)\<close> for a separator of one byte: the pieces of \<open>s\<close> between
  the occurrences of the separator, empty pieces included.
\<close>

fun Split :: "string \<Rightarrow> char \<Rightarrow> string list" where
  "Split [] sep = [[]]"
| "Split (c # cs) sep =
     (if c = sep then [] # Split cs sep
      else (c # hd (Split cs sep)) # tl (Split cs sep))"

section \<open>Flags\<close>

text \<open>
  The flags of the command given on the command line, as name and value in the order
  given (the access flags, which belong to the root command, are not among them). A flag
  given twice keeps its last value, a string flag not given keeps its default, the empty
  string. The flag library runs \<open>RunE\<close> only after it has parsed the flags and checked
  the required ones: the first flag the command does not define ends the command with an
  error, and so does a required flag that was not given; the missing flags are reported
  in the order of their names, which is the order the lists below are written in.
\<close>

type_synonym flags = "(string \<times> string) list"

definition given :: "flags \<Rightarrow> string \<Rightarrow> string option" where
  "given fs name = map_of (rev fs) name"

definition flag_value :: "flags \<Rightarrow> string \<Rightarrow> string" where
  "flag_value fs name = (case given fs name of None \<Rightarrow> [] | Some v \<Rightarrow> v)"

definition not_set :: "flags \<Rightarrow> string list \<Rightarrow> string list" where
  "not_set fs required = filter (\<lambda>name. given fs name = None) required"

definition unknown_flags :: "flags \<Rightarrow> string list \<Rightarrow> string list" where
  "unknown_flags fs defined = filter (\<lambda>name. name \<notin> set defined) (map fst fs)"

definition parse :: "flags \<Rightarrow> string list \<Rightarrow> string list \<Rightarrow> error option" where
  "parse fs defined required =
     (case unknown_flags fs defined of
        name # rest \<Rightarrow> Some (UnknownFlag name)
      | [] \<Rightarrow>
          if not_set fs required \<noteq> [] then Some (RequiredFlagsNotSet (not_set fs required))
          else None)"

section \<open>trusted-clients\<close>

record trustedClientOptions =
  accessGroupID :: string
  extenderID :: string
  fileName :: string
  clientType :: string
  trustedClientID :: string

definition no_options :: trustedClientOptions where
  "no_options =
     \<lparr>accessGroupID = [], extenderID = [], fileName = [], clientType = [],
      trustedClientID = []\<rparr>"

definition normalizeClientType :: "trustedClientOptions \<Rightarrow> string" where
  "normalizeClientType m = ToUpper (clientType m)"

definition client_type_error :: "trustedClientOptions \<Rightarrow> error" where
  "client_type_error options = Errorf (''client type does not exist: '' @ clientType options)"

subsection \<open>list\<close>

definition trustedClientListHelper :: "TrustedClient list \<Rightarrow> string \<Rightarrow> TrustedClient list" where
  "trustedClientListHelper trustedClients ct =
     foldl (\<lambda>clients client. if Type client = ct then clients @ [client] else clients)
       [] trustedClients"

definition trustedClientList :: "'s sdk \<Rightarrow> trustedClientOptions \<Rightarrow> 's world \<Rightarrow> error option \<times> 's world" where
  "trustedClientList api options w =
     (case invoke C_TrustedClients (TrustedClients api) w of
        (Inl err, w1) \<Rightarrow> (Some err, w1)
      | (Inr res, w1) \<Rightarrow>
          if clientType options = ''extender'' then
            stdout api (OutClients (trustedClientListHelper res (normalizeClientType options))) w1
          else if clientType options = ''webproxy'' then
            stdout api (OutClients (trustedClientListHelper res ''ICAP'')) w1
          else if clientType options = ''carrier'' then
            stdout api (OutClients (trustedClientListHelper res (normalizeClientType options))) w1
          else (Some (client_type_error options), w1))"

definition trustedClientListCmd :: "'s sdk \<Rightarrow> flags \<Rightarrow> 's world \<Rightarrow> error option \<times> 's world" where
  "trustedClientListCmd api fs w =
     (case parse fs [''type''] [''type''] of
        Some err \<Rightarrow> (Some err, w)
      | None \<Rightarrow>
          trustedClientList api (no_options\<lparr>clientType := flag_value fs ''type''\<rparr>) w)"

subsection \<open>list-ca\<close>

definition extenderCAList :: "'s sdk \<Rightarrow> trustedClientOptions \<Rightarrow> 's world \<Rightarrow> error option \<times> 's world" where
  "extenderCAList api options w =
     (case invoke (C_ExtenderCACertificates (accessGroupID options))
             (ExtenderCACertificates api (accessGroupID options)) w of
        (Inl err, w1) \<Rightarrow> (Some err, w1)
      | (Inr certificates, w1) \<Rightarrow> stdout api (OutCAs certificates) w1)"

definition webproxyCAList :: "'s sdk \<Rightarrow> trustedClientOptions \<Rightarrow> 's world \<Rightarrow> error option \<times> 's world" where
  "webproxyCAList api options w =
     (case invoke (C_WebProxyCACertificates (accessGroupID options))
             (WebProxyCACertificates api (accessGroupID options)) w of
        (Inl err, w1) \<Rightarrow> (Some err, w1)
      | (Inr certificates, w1) \<Rightarrow> stdout api (OutCAs certificates) w1)"

text \<open>
  The \<open>RunE\<close> closure of \<open>caListCmd\<close>: the handler is called as a statement, its
  result is dropped, and the closure goes on to \<open>return nil\<close>.
\<close>

definition caListRunE :: "'s sdk \<Rightarrow> trustedClientOptions \<Rightarrow> 's world \<Rightarrow> error option \<times> 's world" where
  "caListRunE api options w =
     (if clientType options = ''extender'' then
        (case extenderCAList api options w of (_, w1) \<Rightarrow> (None, w1))
      else if clientType options = ''webproxy'' then
        (case webproxyCAList api options w of (_, w1) \<Rightarrow> (None, w1))
      else (Some (client_type_error options), w))"

definition caListCmd :: "'s sdk \<Rightarrow> flags \<Rightarrow> 's world \<Rightarrow> error option \<times> 's world" where
  "caListCmd api fs w =
     (case parse fs [''group-id'', ''type''] [''type''] of
        Some err \<Rightarrow> (Some err, w)
      | None \<Rightarrow>
          caListRunE api
             (no_options\<lparr>clientType := flag_value fs ''type'',
                         accessGroupID := flag_value fs ''group-id''\<rparr>) w)"

subsection \<open>show-ca\<close>

definition extenderCAShow :: "'s sdk \<Rightarrow> trustedClientOptions \<Rightarrow> 's world \<Rightarrow> error option \<times> 's world" where
  "extenderCAShow api options w =
     (case invoke (C_ExtenderCACertificate (trustedClientID options))
             (ExtenderCACertificate api (trustedClientID options)) w of
        (Inl err, w1) \<Rightarrow> (Some err, w1)
      | (Inr certificate, w1) \<Rightarrow> stdout api (OutCA certificate) w1)"

definition webproxyCAShow :: "'s sdk \<Rightarrow> trustedClientOptions \<Rightarrow> 's world \<Rightarrow> error option \<times> 's world" where
  "webproxyCAShow api options w =
     (case invoke (C_WebProxyCACertificate (trustedClientID options))
             (WebProxyCACertificate api (trustedClientID options)) w of
        (Inl err, w1) \<Rightarrow> (Some err, w1)
      | (Inr certificate, w1) \<Rightarrow> stdout api (OutCA certificate) w1)"

definition caShowRunE :: "'s sdk \<Rightarrow> trustedClientOptions \<Rightarrow> 's world \<Rightarrow> error option \<times> 's world" where
  "caShowRunE api options w =
     (if clientType options = ''extender'' then
        (case extenderCAShow api options w of (_, w1) \<Rightarrow> (None, w1))
      else if clientType options = ''webproxy'' then
        (case webproxyCAShow api options w of (_, w1) \<Rightarrow> (None, w1))
      else (Some (client_type_error options), w))"

text \<open>The flag \<open>client-id\<close> of \<open>show-ca\<close> is bound to the field \<open>extenderID\<close>.\<close>

definition caShowCmd :: "'s sdk \<Rightarrow> flags \<Rightarrow> 's world \<Rightarrow> error option \<times> 's world" where
  "caShowCmd api fs w =
     (case parse fs [''client-id'', ''type''] [''client-id'', ''type''] of
        Some err \<Rightarrow> (Some err, w)
      | None \<Rightarrow>
          caShowRunE api
             (no_options\<lparr>extenderID := flag_value fs ''client-id'',
                         clientType := flag_value fs ''type''\<rparr>) w)"

subsection \<open>show-crl\<close>

definition extenderRevocationList :: "'s sdk \<Rightarrow> trustedClientOptions \<Rightarrow> 's world \<Rightarrow> error option \<times> 's world" where
  "extenderRevocationList api options w =
     (case invoke (C_DownloadExtenderCertificateCRL (fileName options) (trustedClientID options))
             (DownloadExtenderCertificateCRL api (fileName options) (trustedClientID options)) w of
        (Some err, w1) \<Rightarrow> (Some err, w1)
      | (None, w1) \<Rightarrow> (None, w1))"

definition webproxyRevocationList :: "'s sdk \<Rightarrow> trustedClientOptions \<Rightarrow> 's world \<Rightarrow> error option \<times> 's world" where
  "webproxyRevocationList api options w =
     (case invoke (C_DownloadWebProxyCertificateCRL (fileName options) (trustedClientID options))
             (DownloadWebProxyCertificateCRL api (fileName options) (trustedClientID options)) w of
        (Some err, w1) \<Rightarrow> (Some err, w1)
      | (None, w1) \<Rightarrow> (None, w1))"

definition revocationListRunE :: "'s sdk \<Rightarrow> trustedClientOptions \<Rightarrow> 's world \<Rightarrow> error option \<times> 's world" where
  "revocationListRunE api options w =
     (if clientType options = ''extender'' then
        (case extenderRevocationList api options w of (_, w1) \<Rightarrow> (None, w1))
      else if clientType options = ''webproxy'' then
        (case webproxyRevocationList api options w of (_, w1) \<Rightarrow> (None, w1))
      else (Some (client_type_error options), w))"

text \<open>The flag \<open>client-id\<close> of \<open>show-crl\<close> is bound to the field \<open>extenderID\<close> too.\<close>

definition revocationListCmd :: "'s sdk \<Rightarrow> flags \<Rightarrow> 's world \<Rightarrow> error option \<times> 's world" where
  "revocationListCmd api fs w =
     (case parse fs [''client-id'', ''name'', ''type''] [''client-id'', ''name'', ''type''] of
        Some err \<Rightarrow> (Some err, w)
      | None \<Rightarrow>
          revocationListRunE api
             (no_options\<lparr>extenderID := flag_value fs ''client-id'',
                         fileName := flag_value fs ''name'',
                         clientType := flag_value fs ''type''\<rparr>) w)"

subsection \<open>pre-config\<close>

definition downloadExtenderPreConf :: "'s sdk \<Rightarrow> trustedClientOptions \<Rightarrow> 's world \<Rightarrow> error option \<times> 's world" where
  "downloadExtenderPreConf api options w =
     (case invoke (C_ExtenderConfigDownloadHandle (trustedClientID options))
             (ExtenderConfigDownloadHandle api (trustedClientID options)) w of
        (Inl err, w1) \<Rightarrow> (Some err, w1)
      | (Inr handler, w1) \<Rightarrow>
          (case invoke (C_DownloadExtenderConfig (trustedClientID options) (SessionID handler)
                          (fileName options))
                  (DownloadExtenderConfig api (trustedClientID options) (SessionID handler)
                     (fileName options)) w1 of
             (Some err, w2) \<Rightarrow> (Some err, w2)
           | (None, w2) \<Rightarrow> (None, w2)))"

definition downloadWebProxyPreConf :: "'s sdk \<Rightarrow> trustedClientOptions \<Rightarrow> 's world \<Rightarrow> error option \<times> 's world" where
  "downloadWebProxyPreConf api options w =
     (case invoke (C_WebProxySessionDownloadHandle (trustedClientID options))
             (WebProxySessionDownloadHandle api (trustedClientID options)) w of
        (Inl err, w1) \<Rightarrow> (Some err, w1)
      | (Inr handler, w1) \<Rightarrow>
          (case invoke (C_DownloadWebProxyConfig (trustedClientID options) (SessionID handler)
                          (fileName options))
                  (DownloadWebProxyConfig api (trustedClientID options) (SessionID handler)
                     (fileName options)) w1 of
             (Some err, w2) \<Rightarrow> (Some err, w2)
           | (None, w2) \<Rightarrow> (None, w2)))"

definition downloadCarrierPreConf :: "'s sdk \<Rightarrow> trustedClientOptions \<Rightarrow> 's world \<Rightarrow> error option \<times> 's world" where
  "downloadCarrierPreConf api options w =
     (case invoke (C_CarrierConfigDownloadHandle (trustedClientID options))
             (CarrierConfigDownloadHandle api (trustedClientID options)) w of
        (Inl err, w1) \<Rightarrow> (Some err, w1)
      | (Inr handler, w1) \<Rightarrow>
          (case invoke (C_DownloadCarrierConfig (trustedClientID options) (SessionID handler)
                          (fileName options))
                  (DownloadCarrierConfig api (trustedClientID options) (SessionID handler)
                     (fileName options)) w1 of
             (Some err, w2) \<Rightarrow> (Some err, w2)
           | (None, w2) \<Rightarrow> (None, w2)))"

definition preconfigurationDownloadSwitch :: "'s sdk \<Rightarrow> trustedClientOptions \<Rightarrow> 's world \<Rightarrow> error option \<times> 's world" where
  "preconfigurationDownloadSwitch api options w =
     (if clientType options = ''extender'' then
        (case downloadExtenderPreConf api options w of (_, w1) \<Rightarrow> (None, w1))
      else if clientType options = ''webproxy'' then
        (case downloadWebProxyPreConf api options w of (_, w1) \<Rightarrow> (None, w1))
      else if clientType options = ''carrier'' then
        (case downloadCarrierPreConf api options w of (_, w1) \<Rightarrow> (None, w1))
      else (Some (client_type_error options), w))"

definition preconfigurationDownloadCmd :: "'s sdk \<Rightarrow> flags \<Rightarrow> 's world \<Rightarrow> error option \<times> 's world" where
  "preconfigurationDownloadCmd api fs w =
     (case parse fs [''client-id'', ''name'', ''type''] [''client-id'', ''name'', ''type''] of
        Some err \<Rightarrow> (Some err, w)
      | None \<Rightarrow>
          preconfigurationDownloadSwitch api
             (no_options\<lparr>trustedClientID := flag_value fs ''client-id'',
                         clientType := flag_value fs ''type'',
                         fileName := flag_value fs ''name''\<rparr>) w)"

section \<open>roles\<close>

record roleOptions =
  roleID :: string
  roleName :: string
  tokenCode :: string
  ttl :: int

definition no_role_options :: roleOptions where
  "no_role_options = \<lparr>roleID = [], roleName = [], tokenCode = [], ttl = 0\<rparr>"

subsection \<open>delete\<close>

text \<open>The loop of \<open>roleDelete\<close> over the pieces of the flag value.\<close>

fun roleDelete_loop :: "'s sdk \<Rightarrow> string list \<Rightarrow> 's world \<Rightarrow> error option \<times> 's world" where
  "roleDelete_loop api [] w = (None, w)"
| "roleDelete_loop api (rid # rest) w =
     (case invoke (C_DeleteRole rid) (DeleteRole api rid) w of
        (Some err, w1) \<Rightarrow> (Some err, w1)
      | (None, w1) \<Rightarrow> roleDelete_loop api rest (w1\<lparr>out := out w1 @ [OutLine rid]\<rparr>))"

definition roleDelete :: "'s sdk \<Rightarrow> roleOptions \<Rightarrow> 's world \<Rightarrow> error option \<times> 's world" where
  "roleDelete api options w = roleDelete_loop api (Split (roleID options) CHR '','') w"


subsection \<open>members\<close>

text \<open>The loop of \<open>roleMemberList\<close>, with the slice \<open>members\<close> it appends to.\<close>

fun roleMemberList_loop :: "'s sdk \<Rightarrow> string list \<Rightarrow> User list \<Rightarrow> 's world \<Rightarrow> error option \<times> 's world" where
  "roleMemberList_loop api [] members w = stdout api (OutUsers members) w"
| "roleMemberList_loop api (role # rest) members w =
     (case invoke (C_GetRoleMembers role) (GetRoleMembers api role) w of
        (Inl err, w1) \<Rightarrow> (Some err, w1)
      | (Inr member, w1) \<Rightarrow> roleMemberList_loop api rest (members @ member) w1)"

definition roleMemberList :: "'s sdk \<Rightarrow> roleOptions \<Rightarrow> 's world \<Rightarrow> error option \<times> 's world" where
  "roleMemberList api options w =
     roleMemberList_loop api (Split (roleID options) CHR '','') [] w"


section \<open>Notions used to state the properties\<close>

text \<open>
  The answers the service gives when an operation is invoked on each element of a list
  in turn, every invocation starting from the state the one before it left, and the
  state after the last one.
\<close>

fun in_sequence :: "('a \<Rightarrow> 's \<Rightarrow> 'r \<times> 's) \<Rightarrow> 'a list \<Rightarrow> 's \<Rightarrow> 'r list \<times> 's" where
  "in_sequence f [] s = ([], s)"
| "in_sequence f (x # xs) s =
     (case f x s of (r, s1) \<Rightarrow> (case in_sequence f xs s1 of (rs, s2) \<Rightarrow> (r # rs, s2)))"

text \<open>
  A small service to run the commands on. Its state is the list of the role IDs that
  exist. It knows three trusted clients, refuses every CA and CRL request, hands out
  download handles for extenders and carriers only, and fails the second step of a
  carrier download.
\<close>

definition demo :: "string list sdk" where
  "demo =
     \<lparr>TrustedClients = (\<lambda>s. (Inr [\<lparr>ID = ''1'', Type = ''EXTENDER''\<rparr>, \<lparr>ID = ''2'', Type = ''ICAP''\<rparr>,
                                   \<lparr>ID = ''3'', Type = ''EXTENDER''\<rparr>], s)),
      ExtenderCACertificates = (\<lambda>g s. (Inl (SdkError ''403''), s)),
      WebProxyCACertificates = (\<lambda>g s. (Inl (SdkError ''403''), s)),
      ExtenderCACertificate = (\<lambda>i s. (Inl (SdkError ''404''), s)),
      WebProxyCACertificate = (\<lambda>i s. (Inl (SdkError ''404''), s)),
      DownloadExtenderCertificateCRL = (\<lambda>f i s. (Some (SdkError ''404''), s)),
      DownloadWebProxyCertificateCRL = (\<lambda>f i s. (Some (SdkError ''404''), s)),
      ExtenderConfigDownloadHandle = (\<lambda>i s. (Inr \<lparr>SessionID = ''session-'' @ i\<rparr>, s)),
      DownloadExtenderConfig = (\<lambda>i sid f s. (None, s)),
      WebProxySessionDownloadHandle = (\<lambda>i s. (Inl (SdkError ''404''), s)),
      DownloadWebProxyConfig = (\<lambda>i sid f s. (None, s)),
      CarrierConfigDownloadHandle = (\<lambda>i s. (Inr \<lparr>SessionID = ''session-'' @ i\<rparr>, s)),
      DownloadCarrierConfig = (\<lambda>i sid f s. (Some (SdkError ''410''), s)),
      DeleteRole = (\<lambda>rid s. if rid \<in> set s then (None, removeAll rid s)
                             else (Some (SdkError ''404''), s)),
      GetRoleMembers = (\<lambda>rid s. if rid = ''r1'' then (Inr [User ''alice'', User ''bob''], s)
                                 else if rid = ''r2'' then (Inr [User ''bob''], s)
                                 else (Inl (SdkError ''404''), s)),
      stdout_error = (\<lambda>v. None)\<rparr>"

definition start :: "string list world" where
  "start = \<lparr>remote = [''a'', ''c''], calls = [], out = []\<rparr>"

text \<open>
  The same service with one extender and one web proxy registered: it has a CA
  certificate and a revocation list for the client IDs \<open>ext-42\<close> and \<open>wp-7\<close> and
  for no other.
\<close>

definition registry :: "string list sdk" where
  "registry =
     demo\<lparr>ExtenderCACertificate :=
            (\<lambda>i s. if i = ''ext-42'' then (Inr (CA ''ca of ext-42''), s)
                    else (Inl (SdkError ''404''), s)),
          WebProxyCACertificate :=
            (\<lambda>i s. if i = ''wp-7'' then (Inr (CA ''ca of wp-7''), s)
                    else (Inl (SdkError ''404''), s)),
          DownloadExtenderCertificateCRL :=
            (\<lambda>f i s. if i = ''ext-42'' then (None, s) else (Some (SdkError ''404''), s)),
          DownloadWebProxyCertificateCRL :=
            (\<lambda>f i s. if i = ''wp-7'' then (None, s) else (Some (SdkError ''404''), s))\<rparr>"

text \<open>The options of one download, used to run the three download handlers.\<close>

definition job :: trustedClientOptions where
  "job = no_options\<lparr>trustedClientID := ''7'', fileName := ''conf.toml''\<rparr>"

section \<open>Facts about the library functions and the loops\<close>

lemma upper_extender: "ToUpper ''extender'' = ''EXTENDER''"
  by code_simp

lemma upper_webproxy: "ToUpper ''webproxy'' = ''WEBPROXY''"
  by code_simp

lemma upper_carrier: "ToUpper ''carrier'' = ''CARRIER''"
  by code_simp


lemmas flag_defs = parse_def unknown_flags_def not_set_def given_def flag_value_def no_options_def
  no_role_options_def

lemma helper_loop:
  "foldl (\<lambda>clients client. if Type client = ct then clients @ [client] else clients) acc L
     = acc @ filter (\<lambda>client. Type client = ct) L"
  by (induction L arbitrary: acc) simp_all

lemma helper_filter:
  "trustedClientListHelper L ct = filter (\<lambda>client. Type client = ct) L"
  by (simp add: trustedClientListHelper_def helper_loop)

lemma roleDelete_loop_first_failure:
  "in_sequence (DeleteRole api) (pre @ [b]) (remote w) = (map (\<lambda>x. None) pre @ [Some e], s')
   \<Longrightarrow> roleDelete_loop api (pre @ b # post) w
        = (Some e, \<lparr>remote = s', calls = calls w @ map C_DeleteRole (pre @ [b]),
                    out = out w @ map OutLine pre\<rparr>)"
proof (induction pre arbitrary: w)
  case Nil
  then show ?case
    by (simp add: invoke_def split: prod.splits)
next
  case (Cons a pre)
  obtain r s1 where first: "DeleteRole api a (remote w) = (r, s1)"
    by (cases "DeleteRole api a (remote w)")
  obtain rs s2 where rest: "in_sequence (DeleteRole api) (pre @ [b]) s1 = (rs, s2)"
    by (cases "in_sequence (DeleteRole api) (pre @ [b]) s1")
  from Cons.prems first rest have r: "r = None"
    and rs: "in_sequence (DeleteRole api) (pre @ [b]) s1 = (map (\<lambda>x. None) pre @ [Some e], s')"
    by simp_all
  let ?w1 = "w\<lparr>remote := s1, calls := calls w @ [C_DeleteRole a], out := out w @ [OutLine a]\<rparr>"
  have "roleDelete_loop api (pre @ b # post) ?w1
          = (Some e, \<lparr>remote = s', calls = calls ?w1 @ map C_DeleteRole (pre @ [b]),
                      out = out ?w1 @ map OutLine pre\<rparr>)"
    by (rule Cons.IH) (simp add: rs)
  then show ?case
    using first r by (simp add: invoke_def)
qed

lemma roleMemberList_loop_all_found:
  "in_sequence (GetRoleMembers api) roles (remote w) = (map Inr ms, s')
   \<Longrightarrow> roleMemberList_loop api roles members w
        = (stdout_error api (OutUsers (members @ concat ms)),
           \<lparr>remote = s', calls = calls w @ map C_GetRoleMembers roles,
            out = out w @ [OutUsers (members @ concat ms)]\<rparr>)"
proof (induction roles arbitrary: w members ms)
  case Nil
  then show ?case
    by (simp add: stdout_def)
next
  case (Cons role roles)
  obtain r s1 where first: "GetRoleMembers api role (remote w) = (r, s1)"
    by (cases "GetRoleMembers api role (remote w)")
  obtain rs s2 where rest: "in_sequence (GetRoleMembers api) roles s1 = (rs, s2)"
    by (cases "in_sequence (GetRoleMembers api) roles s1")
  from Cons.prems first rest have ms: "r # rs = map Inr ms" and s2: "s2 = s'"
    by simp_all
  then obtain m ms' where split: "ms = m # ms'" "r = Inr m" "rs = map Inr ms'"
    by (cases ms) auto
  let ?w1 = "w\<lparr>remote := s1, calls := calls w @ [C_GetRoleMembers role]\<rparr>"
  have "roleMemberList_loop api roles (members @ m) ?w1
          = (stdout_error api (OutUsers ((members @ m) @ concat ms')),
             \<lparr>remote = s', calls = calls ?w1 @ map C_GetRoleMembers roles,
              out = out ?w1 @ [OutUsers ((members @ m) @ concat ms')]\<rparr>)"
    by (rule Cons.IH) (simp add: rest split s2)
  then show ?case
    using first split by (simp add: invoke_def)
qed

lemma parse_accepts:
  assumes "fst ` set fs \<subseteq> set defined" and "\<And>name. name \<in> set required \<Longrightarrow> given fs name \<noteq> None"
  shows "parse fs defined required = None"
proof -
  have "unknown_flags fs defined = []"
    using assms(1) by (auto simp add: unknown_flags_def filter_empty_conv)
  moreover have "not_set fs required = []"
    using assms(2) by (auto simp add: not_set_def filter_empty_conv)
  ultimately show ?thesis
    by (simp add: parse_def)
qed

lemma roleDelete_loop_all_deleted:
  "in_sequence (DeleteRole api) ids (remote w) = (map (\<lambda>x. None) ids, s')
   \<Longrightarrow> roleDelete_loop api ids w
        = (None, \<lparr>remote = s', calls = calls w @ map C_DeleteRole ids,
                  out = out w @ map OutLine ids\<rparr>)"
proof (induction ids arbitrary: w)
  case Nil
  then show ?case by simp
next
  case (Cons a ids)
  obtain r s1 where first: "DeleteRole api a (remote w) = (r, s1)"
    by (cases "DeleteRole api a (remote w)")
  obtain rs s2 where rest: "in_sequence (DeleteRole api) ids s1 = (rs, s2)"
    by (cases "in_sequence (DeleteRole api) ids s1")
  from Cons.prems first rest have r: "r = None"
    and rs: "in_sequence (DeleteRole api) ids s1 = (map (\<lambda>x. None) ids, s')"
    by simp_all
  let ?w1 = "w\<lparr>remote := s1, calls := calls w @ [C_DeleteRole a], out := out w @ [OutLine a]\<rparr>"
  have "roleDelete_loop api ids ?w1
          = (None, \<lparr>remote = s', calls = calls ?w1 @ map C_DeleteRole ids,
                    out = out ?w1 @ map OutLine ids\<rparr>)"
    by (rule Cons.IH) (simp add: rs)
  then show ?case
    using first r by (simp add: invoke_def)
qed

lemma roleDelete_loop_calls_prefix:
  "\<exists>n. n \<le> length ids
     \<and> calls (snd (roleDelete_loop api ids w)) = calls w @ map C_DeleteRole (take n ids)"
proof (induction ids arbitrary: w)
  case Nil
  then show ?case by simp
next
  case (Cons a ids)
  obtain r s1 where first: "DeleteRole api a (remote w) = (r, s1)"
    by (cases "DeleteRole api a (remote w)")
  show ?case
  proof (cases r)
    case None
    let ?w1 = "w\<lparr>remote := s1, calls := calls w @ [C_DeleteRole a], out := out w @ [OutLine a]\<rparr>"
    from Cons.IH [of ?w1] obtain n where n: "n \<le> length ids"
      "calls (snd (roleDelete_loop api ids ?w1)) = calls ?w1 @ map C_DeleteRole (take n ids)"
      by blast
    have "Suc n \<le> length (a # ids)
        \<and> calls (snd (roleDelete_loop api (a # ids) w))
            = calls w @ map C_DeleteRole (take (Suc n) (a # ids))"
      using n first None by (simp add: invoke_def)
    then show ?thesis by blast
  next
    case (Some err)
    have "Suc 0 \<le> length (a # ids)
        \<and> calls (snd (roleDelete_loop api (a # ids) w))
            = calls w @ map C_DeleteRole (take (Suc 0) (a # ids))"
      using first Some by (simp add: invoke_def)
    then show ?thesis by blast
  qed
qed

lemma preconf_handlers_two_steps:
  "(ExtenderConfigDownloadHandle api (trustedClientID options) (remote w) = (Inl e, s1) \<longrightarrow>
      downloadExtenderPreConf api options w
        = (Some e, w\<lparr>remote := s1,
                      calls := calls w @ [C_ExtenderConfigDownloadHandle (trustedClientID options)]\<rparr>))
   \<and> (ExtenderConfigDownloadHandle api (trustedClientID options) (remote w) = (Inr h, s1)
      \<and> DownloadExtenderConfig api (trustedClientID options) (SessionID h) (fileName options) s1
          = (r, s2) \<longrightarrow>
      downloadExtenderPreConf api options w
        = (r, w\<lparr>remote := s2,
                 calls := calls w @
                   [C_ExtenderConfigDownloadHandle (trustedClientID options),
                    C_DownloadExtenderConfig (trustedClientID options) (SessionID h)
                      (fileName options)]\<rparr>))
   \<and> (WebProxySessionDownloadHandle api (trustedClientID options) (remote w) = (Inl e, s1) \<longrightarrow>
      downloadWebProxyPreConf api options w
        = (Some e, w\<lparr>remote := s1,
                      calls := calls w @ [C_WebProxySessionDownloadHandle (trustedClientID options)]\<rparr>))
   \<and> (WebProxySessionDownloadHandle api (trustedClientID options) (remote w) = (Inr h, s1)
      \<and> DownloadWebProxyConfig api (trustedClientID options) (SessionID h) (fileName options) s1
          = (r, s2) \<longrightarrow>
      downloadWebProxyPreConf api options w
        = (r, w\<lparr>remote := s2,
                 calls := calls w @
                   [C_WebProxySessionDownloadHandle (trustedClientID options),
                    C_DownloadWebProxyConfig (trustedClientID options) (SessionID h)
                      (fileName options)]\<rparr>))
   \<and> (CarrierConfigDownloadHandle api (trustedClientID options) (remote w) = (Inl e, s1) \<longrightarrow>
      downloadCarrierPreConf api options w
        = (Some e, w\<lparr>remote := s1,
                      calls := calls w @ [C_CarrierConfigDownloadHandle (trustedClientID options)]\<rparr>))
   \<and> (CarrierConfigDownloadHandle api (trustedClientID options) (remote w) = (Inr h, s1)
      \<and> DownloadCarrierConfig api (trustedClientID options) (SessionID h) (fileName options) s1
          = (r, s2) \<longrightarrow>
      downloadCarrierPreConf api options w
        = (r, w\<lparr>remote := s2,
                 calls := calls w @
                   [C_CarrierConfigDownloadHandle (trustedClientID options),
                    C_DownloadCarrierConfig (trustedClientID options) (SessionID h)
                      (fileName options)]\<rparr>))
   \<and> (clientType options = ''extender'' \<longrightarrow>
      snd (preconfigurationDownloadSwitch api options w)
        = snd (downloadExtenderPreConf api options w))
   \<and> (clientType options = ''webproxy'' \<longrightarrow>
      snd (preconfigurationDownloadSwitch api options w)
        = snd (downloadWebProxyPreConf api options w))
   \<and> (clientType options = ''carrier'' \<longrightarrow>
      snd (preconfigurationDownloadSwitch api options w)
        = snd (downloadCarrierPreConf api options w))"
  by (auto simp add: downloadExtenderPreConf_def downloadWebProxyPreConf_def
      downloadCarrierPreConf_def preconfigurationDownloadSwitch_def invoke_def
      split: option.splits prod.splits)

lemma preconf_switch_returns_nil:
  "clientType options \<in> {''extender'', ''webproxy'', ''carrier''}
   \<Longrightarrow> fst (preconfigurationDownloadSwitch api options w) = None"
  by (auto simp add: preconfigurationDownloadSwitch_def split: prod.splits)

section \<open>Errors of the remote service in the dispatching commands\<close>

text \<open>
  C1 asks that \<open>list-ca\<close>, \<open>show-ca\<close>, \<open>show-crl\<close> and \<open>pre-config\<close> return the
  error of the remote operation they delegate to. On the service \<open>demo\<close>, where each of
  these operations fails, the handler returns the error (first line) and each of the four
  commands returns \<open>nil\<close>: the \<open>RunE\<close> closures and \<open>preconfigurationDownloadSwitch\<close>
  call the handler without reading its result.
\<close>

theorem dispatch_commands_drop_remote_error:
  "fst (extenderCAList demo (no_options\<lparr>clientType := ''extender''\<rparr>) start) = Some (SdkError ''403'')
   \<and> caListCmd demo [(''type'', ''extender'')] start
       = (None, start\<lparr>calls := [C_ExtenderCACertificates []]\<rparr>)
   \<and> caShowCmd demo [(''client-id'', ''7''), (''type'', ''webproxy'')] start
       = (None, start\<lparr>calls := [C_WebProxyCACertificate []]\<rparr>)
   \<and> revocationListCmd demo [(''client-id'', ''7''), (''name'', ''crl''), (''type'', ''extender'')] start
       = (None, start\<lparr>calls := [C_DownloadExtenderCertificateCRL ''crl'' []]\<rparr>)
   \<and> preconfigurationDownloadCmd demo [(''client-id'', ''7''), (''type'', ''webproxy''), (''name'', ''conf'')] start
       = (None, start\<lparr>calls := [C_WebProxySessionDownloadHandle ''7'']\<rparr>)"
  by (simp add: flag_defs caListCmd_def caListRunE_def extenderCAList_def
      caShowCmd_def caShowRunE_def webproxyCAShow_def
      revocationListCmd_def revocationListRunE_def extenderRevocationList_def
      preconfigurationDownloadCmd_def preconfigurationDownloadSwitch_def downloadWebProxyPreConf_def
      invoke_def demo_def start_def)

section \<open>Unrecognized client types\<close>

text \<open>
  C2, as stated, fails for \<open>trusted-clients list\<close>: the type \<open>bogus\<close> is not
  recognized, and the command has invoked \<open>TrustedClients\<close> on the service by the time
  it reports so.
\<close>

theorem trustedClientList_calls_before_checking:
  "''bogus'' \<notin> {''extender'', ''webproxy'', ''carrier''}
   \<and> trustedClientListCmd demo [(''type'', ''bogus'')] start
       = (Some (Errorf ''client type does not exist: bogus''), start\<lparr>calls := [C_TrustedClients]\<rparr>)"
  by (simp add: flag_defs trustedClientListCmd_def trustedClientList_def client_type_error_def
      invoke_def demo_def start_def)

text \<open>
  C2, amended: with a client type that is neither \<open>extender\<close> nor \<open>webproxy\<close>,
  \<open>list-ca\<close>, \<open>show-ca\<close> and \<open>show-crl\<close> fail with the error
  \<open>client type does not exist\<close> and leave the service, the log of calls and the output
  untouched; so does \<open>pre-config\<close> when the type is not \<open>carrier\<close> either. With such
  a type \<open>trusted-clients list\<close> invokes \<open>TrustedClients\<close> once, prints nothing, and
  returns the error of that call if it failed and \<open>client type does not exist\<close>
  otherwise.
\<close>

theorem unrecognized_type_rejected:
  assumes "clientType options \<notin> {''extender'', ''webproxy''}"
  shows "caListRunE api options w = (Some (client_type_error options), w)
       \<and> caShowRunE api options w = (Some (client_type_error options), w)
       \<and> revocationListRunE api options w = (Some (client_type_error options), w)
       \<and> (clientType options \<noteq> ''carrier'' \<longrightarrow>
            preconfigurationDownloadSwitch api options w = (Some (client_type_error options), w)
          \<and> calls (snd (trustedClientList api options w)) = calls w @ [C_TrustedClients]
          \<and> out (snd (trustedClientList api options w)) = out w
          \<and> fst (trustedClientList api options w)
              = (case fst (TrustedClients api (remote w)) of
                   Inl err \<Rightarrow> Some err
                 | Inr res \<Rightarrow> Some (client_type_error options)))"
  using assms
  by (auto simp add: caListRunE_def caShowRunE_def revocationListRunE_def
      preconfigurationDownloadSwitch_def trustedClientList_def invoke_def
      split: prod.splits sum.splits)

theorem unrecognized_type_rejected_witness:
  "clientType (no_options\<lparr>clientType := ''bogus''\<rparr>) \<notin> {''extender'', ''webproxy''}
   \<and> clientType (no_options\<lparr>clientType := ''bogus''\<rparr>) \<noteq> ''carrier''
   \<and> caListRunE demo (no_options\<lparr>clientType := ''bogus''\<rparr>) start
       = (Some (Errorf ''client type does not exist: bogus''), start)
   \<and> preconfigurationDownloadSwitch demo (no_options\<lparr>clientType := ''bogus''\<rparr>) start
       = (Some (Errorf ''client type does not exist: bogus''), start)
   \<and> calls (snd (trustedClientList demo (no_options\<lparr>clientType := ''bogus''\<rparr>) start))
       = [C_TrustedClients]
   \<and> fst (trustedClientList demo (no_options\<lparr>clientType := ''bogus''\<rparr>) start)
       = Some (Errorf ''client type does not exist: bogus'')"
  using unrecognized_type_rejected [of "no_options\<lparr>clientType := ''bogus''\<rparr>" demo start]
  by (simp add: no_options_def client_type_error_def demo_def start_def)

section \<open>The client identifier of show-ca and show-crl\<close>

text \<open>
  C3: let \<open>show-ca\<close> be given its flags \<open>client-id\<close>, with any value \<open>cid\<close>, and
  \<open>type\<close>, and \<open>show-crl\<close> its flags \<open>client-id\<close>, with any value \<open>cid\<close>,
  \<open>name\<close> and \<open>type\<close>, with the type \<open>extender\<close> or \<open>webproxy\<close>. Then the
  one remote operation the command invokes (\<open>ExtenderCACertificate\<close>,
  \<open>WebProxyCACertificate\<close>, \<open>DownloadExtenderCertificateCRL\<close>,
  \<open>DownloadWebProxyCertificateCRL\<close>) is invoked with the empty string as the client
  identifier, not with \<open>cid\<close>: the flag is stored in \<open>extenderID\<close> and the handlers
  read \<open>trustedClientID\<close>.
\<close>

theorem show_commands_pass_empty_client_id:
  "(fst ` set fs \<subseteq> {''client-id'', ''type''} \<and> given fs ''client-id'' = Some cid
      \<and> given fs ''type'' = Some ''extender'' \<longrightarrow>
      caShowCmd api fs w
        = (None,
           case ExtenderCACertificate api [] (remote w) of
             (Inl err, s1) \<Rightarrow> w\<lparr>remote := s1, calls := calls w @ [C_ExtenderCACertificate []]\<rparr>
           | (Inr certificate, s1) \<Rightarrow>
               w\<lparr>remote := s1, calls := calls w @ [C_ExtenderCACertificate []],
                 out := out w @ [OutCA certificate]\<rparr>))
   \<and> (fst ` set fs \<subseteq> {''client-id'', ''type''} \<and> given fs ''client-id'' = Some cid
      \<and> given fs ''type'' = Some ''webproxy'' \<longrightarrow>
      caShowCmd api fs w
        = (None,
           case WebProxyCACertificate api [] (remote w) of
             (Inl err, s1) \<Rightarrow> w\<lparr>remote := s1, calls := calls w @ [C_WebProxyCACertificate []]\<rparr>
           | (Inr certificate, s1) \<Rightarrow>
               w\<lparr>remote := s1, calls := calls w @ [C_WebProxyCACertificate []],
                 out := out w @ [OutCA certificate]\<rparr>))
   \<and> (fst ` set gs \<subseteq> {''client-id'', ''name'', ''type''} \<and> given gs ''client-id'' = Some cid
      \<and> given gs ''name'' = Some f \<and> given gs ''type'' = Some ''extender'' \<longrightarrow>
      revocationListCmd api gs w
        = (None,
           case DownloadExtenderCertificateCRL api f [] (remote w) of
             (r, s1) \<Rightarrow>
               w\<lparr>remote := s1, calls := calls w @ [C_DownloadExtenderCertificateCRL f []]\<rparr>))
   \<and> (fst ` set gs \<subseteq> {''client-id'', ''name'', ''type''} \<and> given gs ''client-id'' = Some cid
      \<and> given gs ''name'' = Some f \<and> given gs ''type'' = Some ''webproxy'' \<longrightarrow>
      revocationListCmd api gs w
        = (None,
           case DownloadWebProxyCertificateCRL api f [] (remote w) of
             (r, s1) \<Rightarrow>
               w\<lparr>remote := s1, calls := calls w @ [C_DownloadWebProxyCertificateCRL f []]\<rparr>))"
proof -
  have ca: "parse fs [''client-id'', ''type''] [''client-id'', ''type''] = None"
    if "fst ` set fs \<subseteq> {''client-id'', ''type''}" "given fs ''client-id'' = Some cid"
      "given fs ''type'' = Some t" for t
    using that by (intro parse_accepts) auto
  have crl: "parse gs [''client-id'', ''name'', ''type''] [''client-id'', ''name'', ''type''] = None"
    if "fst ` set gs \<subseteq> {''client-id'', ''name'', ''type''}" "given gs ''client-id'' = Some cid"
      "given gs ''name'' = Some f" "given gs ''type'' = Some t" for t
    using that by (intro parse_accepts) auto
  show ?thesis
    using ca [of "''extender''"] ca [of "''webproxy''"] crl [of "''extender''"] crl [of "''webproxy''"]
    by (simp add: caShowCmd_def caShowRunE_def extenderCAShow_def webproxyCAShow_def
        revocationListCmd_def revocationListRunE_def extenderRevocationList_def
        webproxyRevocationList_def flag_value_def no_options_def invoke_def stdout_def
        split: prod.splits sum.splits option.splits)
qed

theorem show_commands_pass_empty_client_id_witness:
  "ExtenderCACertificate registry ''ext-42'' (remote start) = (Inr (CA ''ca of ext-42''), [''a'', ''c''])
   \<and> caShowCmd registry [(''client-id'', ''ext-42''), (''type'', ''extender'')] start
       = (None, start\<lparr>calls := [C_ExtenderCACertificate []]\<rparr>)
   \<and> caShowCmd registry [(''type'', ''webproxy''), (''client-id'', ''wp-7'')] start
       = (None, start\<lparr>calls := [C_WebProxyCACertificate []]\<rparr>)
   \<and> revocationListCmd registry
         [(''client-id'', ''ext-42''), (''type'', ''extender''), (''name'', ''crl.pem'')] start
       = (None, start\<lparr>calls := [C_DownloadExtenderCertificateCRL ''crl.pem'' []]\<rparr>)
   \<and> revocationListCmd registry
         [(''client-id'', ''wp-7''), (''name'', ''crl.pem''), (''type'', ''webproxy'')] start
       = (None, start\<lparr>calls := [C_DownloadWebProxyCertificateCRL ''crl.pem'' []]\<rparr>)"
  using show_commands_pass_empty_client_id
          [of "[(''client-id'', ''ext-42''), (''type'', ''extender'')]" "''ext-42''" registry start
              "[(''client-id'', ''ext-42''), (''type'', ''extender''), (''name'', ''crl.pem'')]"
              "''crl.pem''"]
        show_commands_pass_empty_client_id
          [of "[(''type'', ''webproxy''), (''client-id'', ''wp-7'')]" "''wp-7''" registry start
              "[(''client-id'', ''wp-7''), (''name'', ''crl.pem''), (''type'', ''webproxy'')]"
              "''crl.pem''"]
  by (simp add: given_def registry_def demo_def start_def)

section \<open>The trusted-client filter\<close>

text \<open>
  C4: for every list \<open>L\<close> of trusted clients and every category \<open>c\<close> the filter returns
  exactly the elements of \<open>L\<close> whose \<open>Type\<close> is \<open>c\<close>, in the order they have in
  \<open>L\<close>, and the empty list when no element of \<open>L\<close> has that type.
\<close>

theorem trustedClientListHelper_subsequence:
  "trustedClientListHelper L c = filter (\<lambda>client. Type client = c) L
   \<and> ((\<forall>client \<in> set L. Type client \<noteq> c) \<longrightarrow> trustedClientListHelper L c = [])"
  by (simp add: helper_filter)

theorem trustedClientListHelper_subsequence_witness:
  "trustedClientListHelper
     [\<lparr>ID = ''1'', Type = ''EXTENDER''\<rparr>, \<lparr>ID = ''2'', Type = ''ICAP''\<rparr>,
      \<lparr>ID = ''3'', Type = ''EXTENDER''\<rparr>] ''EXTENDER''
     = [\<lparr>ID = ''1'', Type = ''EXTENDER''\<rparr>, \<lparr>ID = ''3'', Type = ''EXTENDER''\<rparr>]
   \<and> trustedClientListHelper
       [\<lparr>ID = ''1'', Type = ''EXTENDER''\<rparr>, \<lparr>ID = ''2'', Type = ''ICAP''\<rparr>] ''CARRIER'' = []"
  using trustedClientListHelper_subsequence
          [of "[\<lparr>ID = ''1'', Type = ''EXTENDER''\<rparr>, \<lparr>ID = ''2'', Type = ''ICAP''\<rparr>,
                \<lparr>ID = ''3'', Type = ''EXTENDER''\<rparr>]" "''EXTENDER''"]
        trustedClientListHelper_subsequence
          [of "[\<lparr>ID = ''1'', Type = ''EXTENDER''\<rparr>, \<lparr>ID = ''2'', Type = ''ICAP''\<rparr>]" "''CARRIER''"]
  by simp

section \<open>The categories of the dispatcher\<close>

text \<open>
  C5: once the clients \<open>res\<close> have been fetched, \<open>trustedClientList\<close> filters them by
  the category \<open>ICAP\<close> for the token \<open>webproxy\<close> (whose upper-cased form is
  \<open>WEBPROXY\<close>), by \<open>EXTENDER\<close> for \<open>extender\<close> and by \<open>CARRIER\<close> for
  \<open>carrier\<close>, the last two obtained by upper-casing the token; for any other token it
  returns the error \<open>client type does not exist\<close> and filters and prints nothing.
\<close>

theorem dispatcher_normalization:
  assumes "TrustedClients api (remote w) = (Inr res, s1)"
  shows "(clientType options = ''webproxy'' \<longrightarrow>
            trustedClientList api options w
              = stdout api (OutClients (trustedClientListHelper res ''ICAP''))
                  (w\<lparr>remote := s1, calls := calls w @ [C_TrustedClients]\<rparr>))
       \<and> (clientType options = ''extender'' \<longrightarrow>
            normalizeClientType options = ''EXTENDER''
          \<and> trustedClientList api options w
              = stdout api (OutClients (trustedClientListHelper res ''EXTENDER''))
                  (w\<lparr>remote := s1, calls := calls w @ [C_TrustedClients]\<rparr>))
       \<and> (clientType options = ''carrier'' \<longrightarrow>
            normalizeClientType options = ''CARRIER''
          \<and> trustedClientList api options w
              = stdout api (OutClients (trustedClientListHelper res ''CARRIER''))
                  (w\<lparr>remote := s1, calls := calls w @ [C_TrustedClients]\<rparr>))
       \<and> (clientType options \<notin> {''extender'', ''webproxy'', ''carrier''} \<longrightarrow>
            trustedClientList api options w
              = (Some (client_type_error options),
                 w\<lparr>remote := s1, calls := calls w @ [C_TrustedClients]\<rparr>))
       \<and> ToUpper ''webproxy'' = ''WEBPROXY''"
  using assms
  by (simp add: trustedClientList_def invoke_def normalizeClientType_def
      upper_extender upper_carrier upper_webproxy)

theorem dispatcher_normalization_witness:
  "TrustedClients demo (remote start)
     = (Inr [\<lparr>ID = ''1'', Type = ''EXTENDER''\<rparr>, \<lparr>ID = ''2'', Type = ''ICAP''\<rparr>,
             \<lparr>ID = ''3'', Type = ''EXTENDER''\<rparr>], [''a'', ''c''])
   \<and> trustedClientList demo (no_options\<lparr>clientType := ''webproxy''\<rparr>) start
     = (None, \<lparr>remote = [''a'', ''c''], calls = [C_TrustedClients],
               out = [OutClients [\<lparr>ID = ''2'', Type = ''ICAP''\<rparr>]]\<rparr>)
   \<and> trustedClientList demo (no_options\<lparr>clientType := ''extender''\<rparr>) start
     = (None, \<lparr>remote = [''a'', ''c''], calls = [C_TrustedClients],
               out = [OutClients [\<lparr>ID = ''1'', Type = ''EXTENDER''\<rparr>,
                                  \<lparr>ID = ''3'', Type = ''EXTENDER''\<rparr>]]\<rparr>)
   \<and> trustedClientList demo (no_options\<lparr>clientType := ''carrier''\<rparr>) start
     = (None, \<lparr>remote = [''a'', ''c''], calls = [C_TrustedClients], out = [OutClients []]\<rparr>)
   \<and> trustedClientList demo (no_options\<lparr>clientType := ''WEBPROXY''\<rparr>) start
     = (Some (Errorf ''client type does not exist: WEBPROXY''),
        \<lparr>remote = [''a'', ''c''], calls = [C_TrustedClients], out = []\<rparr>)"
  using dispatcher_normalization
          [of demo start "[\<lparr>ID = ''1'', Type = ''EXTENDER''\<rparr>, \<lparr>ID = ''2'', Type = ''ICAP''\<rparr>,
                           \<lparr>ID = ''3'', Type = ''EXTENDER''\<rparr>]" "[''a'', ''c'']"
              "no_options\<lparr>clientType := ''webproxy''\<rparr>"]
        dispatcher_normalization
          [of demo start "[\<lparr>ID = ''1'', Type = ''EXTENDER''\<rparr>, \<lparr>ID = ''2'', Type = ''ICAP''\<rparr>,
                           \<lparr>ID = ''3'', Type = ''EXTENDER''\<rparr>]" "[''a'', ''c'']"
              "no_options\<lparr>clientType := ''extender''\<rparr>"]
        dispatcher_normalization
          [of demo start "[\<lparr>ID = ''1'', Type = ''EXTENDER''\<rparr>, \<lparr>ID = ''2'', Type = ''ICAP''\<rparr>,
                           \<lparr>ID = ''3'', Type = ''EXTENDER''\<rparr>]" "[''a'', ''c'']"
              "no_options\<lparr>clientType := ''carrier''\<rparr>"]
        dispatcher_normalization
          [of demo start "[\<lparr>ID = ''1'', Type = ''EXTENDER''\<rparr>, \<lparr>ID = ''2'', Type = ''ICAP''\<rparr>,
                           \<lparr>ID = ''3'', Type = ''EXTENDER''\<rparr>]" "[''a'', ''c'']"
              "no_options\<lparr>clientType := ''WEBPROXY''\<rparr>"]
  by (simp add: no_options_def client_type_error_def demo_def start_def stdout_def
      trustedClientListHelper_def)

section \<open>Batch deletion of roles\<close>

text \<open>
  C6: whatever the service answers, the remote calls of \<open>roleDelete\<close> are the deletions
  of the first \<open>n\<close> pieces of the \<open>id\<close> value, for some \<open>n\<close>, one call for each and
  in the order of the pieces. When the service accepts every piece, \<open>n\<close> is the number
  of pieces: \<open>roleDelete\<close> returns \<open>nil\<close> and has printed every piece. When the pieces
  are \<open>pre\<close>, then \<open>b\<close>, then \<open>post\<close>, and the service, asked to delete the
  elements of \<open>pre\<close> and then \<open>b\<close> one after the other, accepts every element of
  \<open>pre\<close> and refuses \<open>b\<close> with the error \<open>e\<close>, ending in the state \<open>s'\<close>, then
  \<open>roleDelete\<close> returns \<open>e\<close>; the remote calls it made are the deletions of \<open>pre\<close>
  and of \<open>b\<close>, in this order, and none for \<open>post\<close>; it has printed the elements of
  \<open>pre\<close>; and the service is left in \<open>s'\<close>, with the deletions of \<open>pre\<close> in place.
\<close>

theorem roleDelete_stops_at_first_failure:
  "(\<exists>n. n \<le> length (Split (roleID options) CHR '','')
       \<and> calls (snd (roleDelete api options w))
           = calls w @ map C_DeleteRole (take n (Split (roleID options) CHR '','')))
   \<and> (in_sequence (DeleteRole api) (Split (roleID options) CHR '','') (remote w)
         = (map (\<lambda>x. None) (Split (roleID options) CHR '',''), s) \<longrightarrow>
       roleDelete api options w
         = (None, \<lparr>remote = s,
                   calls = calls w @ map C_DeleteRole (Split (roleID options) CHR '',''),
                   out = out w @ map OutLine (Split (roleID options) CHR '','')\<rparr>))
   \<and> (Split (roleID options) CHR '','' = pre @ b # post
       \<and> in_sequence (DeleteRole api) (pre @ [b]) (remote w)
           = (map (\<lambda>x. None) pre @ [Some e], s') \<longrightarrow>
       roleDelete api options w
         = (Some e, \<lparr>remote = s', calls = calls w @ map C_DeleteRole (pre @ [b]),
                     out = out w @ map OutLine pre\<rparr>))"
  using roleDelete_loop_calls_prefix [of "Split (roleID options) CHR '',''" api w]
  by (simp add: roleDelete_def roleDelete_loop_first_failure roleDelete_loop_all_deleted)

theorem roleDelete_stops_at_first_failure_witness:
  "Split (roleID (no_role_options\<lparr>roleID := ''a,b,c''\<rparr>)) CHR '','' = [''a''] @ ''b'' # [''c'']
   \<and> in_sequence (DeleteRole demo) ([''a''] @ [''b'']) (remote start)
       = (map (\<lambda>x. None) [''a''] @ [Some (SdkError ''404'')], [''c''])
   \<and> roleDelete demo (no_role_options\<lparr>roleID := ''a,b,c''\<rparr>) start
       = (Some (SdkError ''404''),
          \<lparr>remote = [''c''], calls = [C_DeleteRole ''a'', C_DeleteRole ''b''],
           out = [OutLine ''a'']\<rparr>)
   \<and> in_sequence (DeleteRole demo) (Split (roleID (no_role_options\<lparr>roleID := ''c,a''\<rparr>)) CHR '','')
         (remote start)
       = (map (\<lambda>x. None) (Split (roleID (no_role_options\<lparr>roleID := ''c,a''\<rparr>)) CHR '',''), [])
   \<and> roleDelete demo (no_role_options\<lparr>roleID := ''c,a''\<rparr>) start
       = (None, \<lparr>remote = [], calls = [C_DeleteRole ''c'', C_DeleteRole ''a''],
                 out = [OutLine ''c'', OutLine ''a'']\<rparr>)"
proof -
  have h1: "Split (roleID (no_role_options\<lparr>roleID := ''a,b,c''\<rparr>)) CHR '','' = [''a''] @ ''b'' # [''c'']"
    by (simp add: no_role_options_def)
  have h2: "in_sequence (DeleteRole demo) ([''a''] @ [''b'']) (remote start)
       = (map (\<lambda>x. None) [''a''] @ [Some (SdkError ''404'')], [''c''])"
    by (simp add: demo_def start_def)
  have h3: "in_sequence (DeleteRole demo)
              (Split (roleID (no_role_options\<lparr>roleID := ''c,a''\<rparr>)) CHR '','') (remote start)
       = (map (\<lambda>x. None) (Split (roleID (no_role_options\<lparr>roleID := ''c,a''\<rparr>)) CHR '',''), [])"
    by (simp add: no_role_options_def demo_def start_def)
  show ?thesis
    using h1 h2 h3
      roleDelete_stops_at_first_failure
        [of "no_role_options\<lparr>roleID := ''a,b,c''\<rparr>" demo start "[''c'']" "[''a'']" "''b''" "[''c'']"
            "SdkError ''404''" "[''c'']"]
      roleDelete_stops_at_first_failure
        [of "no_role_options\<lparr>roleID := ''c,a''\<rparr>" demo start "[]" "[''a'']" "''b''" "[''c'']"
            "SdkError ''404''" "[''c'']"]
    by (simp add: no_role_options_def start_def)
qed

section \<open>Members of several roles\<close>

text \<open>
  C7: when the service answers the member lookups of the pieces of the \<open>id\<close> value, made
  one after the other from left to right, with the member lists \<open>ms\<close> and no error, then
  \<open>roleMemberList\<close> hands to the output the concatenation of these lists, in the order of
  the pieces and with each list as the service returned it; a user who is in two of the
  lists stays in the output twice.
\<close>

theorem roleMemberList_concatenates:
  assumes "in_sequence (GetRoleMembers api) (Split (roleID options) CHR '','') (remote w)
             = (map Inr ms, s')"
  shows "roleMemberList api options w
           = (stdout_error api (OutUsers (concat ms)),
              \<lparr>remote = s',
               calls = calls w @ map C_GetRoleMembers (Split (roleID options) CHR '',''),
               out = out w @ [OutUsers (concat ms)]\<rparr>)"
  using roleMemberList_loop_all_found [OF assms, of "[]"]
  by (simp add: roleMemberList_def)

theorem roleMemberList_concatenates_witness:
  "in_sequence (GetRoleMembers demo) (Split (roleID (no_role_options\<lparr>roleID := ''r1,r2''\<rparr>)) CHR '','')
     (remote start)
     = (map Inr [[User ''alice'', User ''bob''], [User ''bob'']], [''a'', ''c''])
   \<and> roleMemberList demo (no_role_options\<lparr>roleID := ''r1,r2''\<rparr>) start
     = (None, \<lparr>remote = [''a'', ''c''],
               calls = [C_GetRoleMembers ''r1'', C_GetRoleMembers ''r2''],
               out = [OutUsers [User ''alice'', User ''bob'', User ''bob'']]\<rparr>)"
proof -
  have h: "in_sequence (GetRoleMembers demo)
             (Split (roleID (no_role_options\<lparr>roleID := ''r1,r2''\<rparr>)) CHR '','') (remote start)
           = (map Inr [[User ''alice'', User ''bob''], [User ''bob'']], [''a'', ''c''])"
    by (simp add: no_role_options_def demo_def start_def)
  show ?thesis
    using h roleMemberList_concatenates [OF h]
    by (simp add: no_role_options_def demo_def start_def)
qed

section \<open>The two steps of a configuration download\<close>

text \<open>
  C8 asks that the download of a pre-configuration request a download handle, then invoke
  the download with the client ID, the session identifier of the handle and the file
  name, and that the command stop and return the error when either step fails. The
  three handlers do so (\<open>preconf_handlers_two_steps\<close>). The command does not return the
  error: on the service \<open>demo\<close>, the second step of a carrier download fails with
  \<open>410\<close> and the first step of a web proxy download fails with \<open>404\<close>; the handler
  returns that error after the two calls, respectively the one call, and the command
  \<open>pre-config\<close>, having made the same calls, returns \<open>nil\<close>, since
  \<open>preconfigurationDownloadSwitch\<close> calls the handler without reading its result.
\<close>

theorem preconf_command_drops_step_error:
  "downloadCarrierPreConf demo (job\<lparr>clientType := ''carrier''\<rparr>) start
     = (Some (SdkError ''410''),
        start\<lparr>calls := [C_CarrierConfigDownloadHandle ''7'',
                        C_DownloadCarrierConfig ''7'' ''session-7'' ''conf.toml'']\<rparr>)
   \<and> preconfigurationDownloadCmd demo
       [(''client-id'', ''7''), (''type'', ''carrier''), (''name'', ''conf.toml'')] start
     = (None,
        start\<lparr>calls := [C_CarrierConfigDownloadHandle ''7'',
                        C_DownloadCarrierConfig ''7'' ''session-7'' ''conf.toml'']\<rparr>)
   \<and> downloadWebProxyPreConf demo (job\<lparr>clientType := ''webproxy''\<rparr>) start
     = (Some (SdkError ''404''), start\<lparr>calls := [C_WebProxySessionDownloadHandle ''7'']\<rparr>)
   \<and> preconfigurationDownloadCmd demo
       [(''client-id'', ''7''), (''type'', ''webproxy''), (''name'', ''conf.toml'')] start
     = (None, start\<lparr>calls := [C_WebProxySessionDownloadHandle ''7'']\<rparr>)"
  by (simp add: flag_defs job_def preconfigurationDownloadCmd_def
      preconfigurationDownloadSwitch_def downloadCarrierPreConf_def downloadWebProxyPreConf_def
      invoke_def demo_def start_def)

section \<open>Idempotence of the filter\<close>

text \<open>
  C9: the filter is idempotent: filtering a filtered list again with the same category
  returns it unchanged.
\<close>

theorem trustedClientListHelper_idempotent:
  "trustedClientListHelper (trustedClientListHelper L c) c = trustedClientListHelper L c"
  by (simp add: helper_filter)

section \<open>The empty batch value\<close>


end
